theory Spec2Isabelle
  imports Complex_Main
begin

section \<open>Python values\<close>

text \<open>
  The module is dynamically typed: every field of a measurement and every entry of a
  decoded JSON record holds an arbitrary Python object.  The objects that a JSON decoder
  can produce, together with \<open>bytes\<close> (built by \<open>from_json\<close>), form the datatype below.

  Two idealisations are made throughout and nowhere hidden:
  \<^item> a Python \<open>float\<close> is a rational number; arithmetic on it is exact and there is neither
    rounding, infinity nor NaN among the stored values;
  \<^item> a Python \<open>str\<close> is a list of 8-bit characters.
\<close>

datatype pyval =
    PNone
  | PBool bool
  | PInt int
  | PFloat rat
  | PStr string
  | PBytes "nat list"
  | PList "pyval list"
  | PDict "(string \<times> pyval) list"

text \<open>
  The exceptions the module can raise.  \<open>TypeError\<close>, \<open>ValueError\<close> and \<open>OverflowError\<close>
  come from the built-in operations; the other three are the module's own \<open>raise\<close>
  statements: \<open>Exception('Invalid SenML message')\<close> in \<open>is_valid\<close>,
  \<open>ValueError('Multiple base version detected ...')\<close> in \<open>SenMLDocument.from_json\<close> and
  \<open>Exception('Either a sum or a value has to be present in a record.')\<close> in \<open>to_json\<close>.
\<close>

datatype error =
    TypeError
  | ValueError
  | OverflowError
  | InvalidSenML
  | MultipleBaseVersion
  | SumOrValueMissing

definition bindE :: "error + 'a \<Rightarrow> ('a \<Rightarrow> error + 'b) \<Rightarrow> error + 'b" where
  "bindE m f = (case m of Inl e \<Rightarrow> Inl e | Inr x \<Rightarrow> f x)"

subsection \<open>Truth value, \<open>or\<close>, \<open>+\<close>, \<open><\<close>\<close>

text \<open>\<open>bool(x)\<close>: \<open>None\<close>, \<open>False\<close>, numeric zero and empty containers are false.\<close>

fun truthy :: "pyval \<Rightarrow> bool" where
  "truthy PNone = False"
| "truthy (PBool b) = b"
| "truthy (PInt i) = (i \<noteq> 0)"
| "truthy (PFloat r) = (r \<noteq> 0)"
| "truthy (PStr s) = (s \<noteq> [])"
| "truthy (PBytes bs) = (bs \<noteq> [])"
| "truthy (PList xs) = (xs \<noteq> [])"
| "truthy (PDict kvs) = (kvs \<noteq> [])"

text \<open>\<open>a or b\<close> yields \<open>a\<close> when \<open>a\<close> is true and \<open>b\<close> otherwise.\<close>

definition py_or :: "pyval \<Rightarrow> pyval \<Rightarrow> pyval" where
  "py_or a b = (if truthy a then a else b)"

text \<open>\<open>bool\<close> is a subclass of \<open>int\<close>: \<open>True\<close> counts as 1 and \<open>False\<close> as 0.\<close>

fun as_int :: "pyval \<Rightarrow> int option" where
  "as_int (PBool b) = Some (if b then 1 else 0)"
| "as_int (PInt i) = Some i"
| "as_int _ = None"

fun as_num :: "pyval \<Rightarrow> rat option" where
  "as_num (PBool b) = Some (if b then 1 else 0)"
| "as_num (PInt i) = Some (of_int i)"
| "as_num (PFloat r) = Some r"
| "as_num _ = None"

text \<open>
  \<open>a + b\<close>: integers (and booleans) add to an integer, a float on either side gives a
  float, two strings, two byte strings or two lists are concatenated, and every other
  combination raises \<open>TypeError\<close>.
\<close>

definition py_add :: "pyval \<Rightarrow> pyval \<Rightarrow> error + pyval" where
  "py_add a b =
     (case (as_int a, as_int b) of
        (Some i, Some j) \<Rightarrow> Inr (PInt (i + j))
      | _ \<Rightarrow>
     (case (as_num a, as_num b) of
        (Some x, Some y) \<Rightarrow> Inr (PFloat (x + y))
      | _ \<Rightarrow>
     (case (a, b) of
        (PStr s, PStr t) \<Rightarrow> Inr (PStr (s @ t))
      | (PBytes s, PBytes t) \<Rightarrow> Inr (PBytes (s @ t))
      | (PList s, PList t) \<Rightarrow> Inr (PList (s @ t))
      | _ \<Rightarrow> Inl TypeError)))"

text \<open>
  \<open>a < n\<close> for an integer literal \<open>n\<close>: numbers are compared by value (Python compares
  an \<open>int\<close> with a \<open>float\<close> exactly), anything else raises \<open>TypeError\<close>.
\<close>

definition py_lt_int :: "pyval \<Rightarrow> int \<Rightarrow> error + bool" where
  "py_lt_int a n = (case as_num a of Some x \<Rightarrow> Inr (x < of_int n) | None \<Rightarrow> Inl TypeError)"

subsection \<open>\<open>float(s)\<close> and \<open>int(s)\<close> on text\<close>

text \<open>
  Both built-ins strip surrounding white space, read an optional sign and then demand
  that the whole remainder is a number.  A group of digits may contain single
  underscores between digits.  \<open>float\<close> accepts a fraction, an exponent and the words
  \<open>inf\<close>, \<open>infinity\<close> and \<open>nan\<close> in any case; \<open>int\<close> accepts digits only.
\<close>

text \<open>
  The white space that \<open>float\<close> and \<open>int\<close> strip from a \<open>str\<close>: tab to carriage return,
  the space, and among the 8-bit characters beyond ASCII the next-line and the
  no-break space.
\<close>

definition is_space :: "char \<Rightarrow> bool" where
  "is_space c = (let n = (of_char c :: nat) in
     (9 \<le> n \<and> n \<le> 13) \<or> n = 32 \<or> n = 133 \<or> n = 160)"

definition is_digit :: "char \<Rightarrow> bool" where
  "is_digit c = (let n = (of_char c :: nat) in 48 \<le> n \<and> n \<le> 57)"

definition digit_val :: "char \<Rightarrow> nat" where
  "digit_val c = of_char c - 48"

definition lower :: "char \<Rightarrow> char" where
  "lower c = (let n = (of_char c :: nat) in if 65 \<le> n \<and> n \<le> 90 then char_of (n + 32) else c)"

text \<open>
  \<open>str.casefold\<close> restricted to 8-bit characters and to its use here, a comparison with
  the words \<open>false\<close> and \<open>0\<close>: the letters A to Z fold to their small letters, and the
  only other 8-bit character that folds to ASCII letters gives \<open>ss\<close>, which is in
  neither word.
\<close>

definition casefold :: "string \<Rightarrow> string" where
  "casefold s = map lower s"

text \<open>White space in a \<open>bytes\<close> argument is the ASCII white space only.\<close>

definition is_space_ascii :: "char \<Rightarrow> bool" where
  "is_space_ascii c = (let n = (of_char c :: nat) in (9 \<le> n \<and> n \<le> 13) \<or> n = 32)"

definition strip :: "(char \<Rightarrow> bool) \<Rightarrow> string \<Rightarrow> string" where
  "strip sp s = rev (dropWhile sp (rev (dropWhile sp s)))"

fun digitpart_rest :: "string \<Rightarrow> nat list \<times> string" where
  "digitpart_rest [] = ([], [])"
| "digitpart_rest [c] = (if is_digit c then ([digit_val c], []) else ([], [c]))"
| "digitpart_rest (c # d # cs) =
     (if is_digit c then (case digitpart_rest (d # cs) of (ds, r) \<Rightarrow> (digit_val c # ds, r))
      else if c = CHR ''_'' \<and> is_digit d
      then (case digitpart_rest cs of (ds, r) \<Rightarrow> (digit_val d # ds, r))
      else ([], c # d # cs))"

text \<open>\<open>digitpart s\<close>: the digits of the longest digit group that \<open>s\<close> starts with, and the rest.\<close>

definition digitpart :: "string \<Rightarrow> (nat list \<times> string) option" where
  "digitpart s =
     (case s of
        [] \<Rightarrow> None
      | c # cs \<Rightarrow> if is_digit c
                 then (case digitpart_rest cs of (ds, r) \<Rightarrow> Some (digit_val c # ds, r))
                 else None)"

definition digits_val :: "nat list \<Rightarrow> nat" where
  "digits_val ds = foldl (\<lambda>a d. 10 * a + d) 0 ds"

definition parse_sign :: "string \<Rightarrow> bool \<times> string" where
  "parse_sign s =
     (case s of
        [] \<Rightarrow> (False, [])
      | c # cs \<Rightarrow> if c = CHR ''-'' then (True, cs)
                 else if c = CHR ''+'' then (False, cs) else (False, s))"

definition py_int_str :: "(char \<Rightarrow> bool) \<Rightarrow> string \<Rightarrow> error + int" where
  "py_int_str sp s =
     (case parse_sign (strip sp s) of (neg, r) \<Rightarrow>
       (case digitpart r of
          Some (ds, []) \<Rightarrow> Inr (if neg then - int (digits_val ds) else int (digits_val ds))
        | _ \<Rightarrow> Inl ValueError))"

definition pow10 :: "int \<Rightarrow> rat" where
  "pow10 z = (if 0 \<le> z then 10 ^ nat z else 1 / 10 ^ nat (- z))"

text \<open>The end of a float numeral: nothing, or an exponent that reaches the end.\<close>

definition parse_exponent :: "string \<Rightarrow> int option" where
  "parse_exponent s =
     (case s of
        [] \<Rightarrow> Some 0
      | c # cs \<Rightarrow>
          if c = CHR ''e'' \<or> c = CHR ''E''
          then (case parse_sign cs of (neg, r) \<Rightarrow>
                 (case digitpart r of
                    Some (ds, []) \<Rightarrow> Some (if neg then - int (digits_val ds) else int (digits_val ds))
                  | _ \<Rightarrow> None))
          else None)"

definition mk_float :: "nat list \<Rightarrow> nat list \<Rightarrow> string \<Rightarrow> rat option" where
  "mk_float ip fp r =
     (case parse_exponent r of
        None \<Rightarrow> None
      | Some e \<Rightarrow> Some (of_nat (digits_val (ip @ fp)) * pow10 (e - int (length fp))))"

definition parse_floatnumber :: "string \<Rightarrow> rat option" where
  "parse_floatnumber s =
     (case digitpart s of
        Some (ip, r) \<Rightarrow>
          (case r of
             [] \<Rightarrow> mk_float ip [] []
           | c # r' \<Rightarrow>
               if c = CHR ''.''
               then (case digitpart r' of
                       Some (fp, r'') \<Rightarrow> mk_float ip fp r''
                     | None \<Rightarrow> mk_float ip [] r')
               else mk_float ip [] r)
      | None \<Rightarrow>
          (case s of
             [] \<Rightarrow> None
           | c # r' \<Rightarrow>
               if c = CHR ''.''
               then (case digitpart r' of
                       Some (fp, r'') \<Rightarrow> mk_float [] fp r''
                     | None \<Rightarrow> None)
               else None))"

text \<open>What \<open>float\<close> returns before the value is stored: a finite number, an infinity or NaN.\<close>

datatype flt = Finite rat | Infinite | NotANumber

definition py_float_str :: "(char \<Rightarrow> bool) \<Rightarrow> string \<Rightarrow> error + flt" where
  "py_float_str sp s =
     (case parse_sign (strip sp s) of (neg, r) \<Rightarrow>
        if casefold r = ''inf'' \<or> casefold r = ''infinity'' then Inr Infinite
        else if casefold r = ''nan'' then Inr NotANumber
        else (case parse_floatnumber r of
                Some q \<Rightarrow> Inr (Finite (if neg then - q else q))
              | None \<Rightarrow> Inl ValueError))"

text \<open>
  \<open>float(v)\<close> and \<open>int(v)\<close> on an arbitrary object.  A \<open>bytes\<close> argument is read as the
  text of its ASCII characters.  \<open>int\<close> of a float truncates towards zero and raises on an
  infinity (\<open>OverflowError\<close>) and on NaN (\<open>ValueError\<close>).
\<close>

fun py_float :: "pyval \<Rightarrow> error + flt" where
  "py_float (PBool b) = Inr (Finite (if b then 1 else 0))"
| "py_float (PInt i) = Inr (Finite (of_int i))"
| "py_float (PFloat r) = Inr (Finite r)"
| "py_float (PStr s) = py_float_str is_space s"
| "py_float (PBytes bs) = py_float_str is_space_ascii (map char_of bs)"
| "py_float _ = Inl TypeError"

definition trunc :: "rat \<Rightarrow> int" where
  "trunc r = (if 0 \<le> r then \<lfloor>r\<rfloor> else \<lceil>r\<rceil>)"

fun int_of_flt :: "flt \<Rightarrow> error + int" where
  "int_of_flt (Finite r) = Inr (trunc r)"
| "int_of_flt Infinite = Inl OverflowError"
| "int_of_flt NotANumber = Inl ValueError"

fun py_int :: "pyval \<Rightarrow> error + int" where
  "py_int (PBool b) = Inr (if b then 1 else 0)"
| "py_int (PInt i) = Inr i"
| "py_int (PFloat r) = Inr (trunc r)"
| "py_int (PStr s) = py_int_str is_space s"
| "py_int (PBytes bs) = py_int_str is_space_ascii (map char_of bs)"
| "py_int _ = Inl TypeError"

subsection \<open>\<open>str(v)\<close> and \<open>bytes(v)\<close>\<close>

fun dec :: "nat \<Rightarrow> string" where
  "dec n = (if n < 10 then [char_of (48 + n)] else dec (n div 10) @ [char_of (48 + n mod 10)])"

text \<open>
  \<open>str\<close> of \<open>None\<close>, of a boolean, of an integer and of a string is written out.  The text
  of a float, of a byte string, of a list and of a dictionary is their \<open>repr\<close>, which the
  model takes as the parameter \<open>rp\<close>.
\<close>

fun py_str :: "(pyval \<Rightarrow> string) \<Rightarrow> pyval \<Rightarrow> string" where
  "py_str rp PNone = ''None''"
| "py_str rp (PBool b) = (if b then ''True'' else ''False'')"
| "py_str rp (PInt i) = (if i < 0 then CHR ''-'' # dec (nat (- i)) else dec (nat i))"
| "py_str rp (PStr s) = s"
| "py_str rp v = rp v"

text \<open>One element of the iterable given to \<open>bytes\<close>: an integer in \<open>range(256)\<close>.\<close>

fun byte_of :: "pyval \<Rightarrow> error + nat" where
  "byte_of (PBool b) = Inr (if b then 1 else 0)"
| "byte_of (PInt i) = (if 0 \<le> i \<and> i < 256 then Inr (nat i) else Inl ValueError)"
| "byte_of _ = Inl TypeError"

fun bytes_of_list :: "pyval list \<Rightarrow> error + nat list" where
  "bytes_of_list [] = Inr []"
| "bytes_of_list (x # xs) =
     bindE (byte_of x) (\<lambda>b. bindE (bytes_of_list xs) (\<lambda>bs. Inr (b # bs)))"

text \<open>
  \<open>bytes(v)\<close>: an integer gives that many zero bytes, a list gives its elements, a
  dictionary is iterated over its keys (strings, so only the empty one succeeds), and
  \<open>None\<close>, a float or a string raise \<open>TypeError\<close>.
\<close>

fun py_bytes :: "pyval \<Rightarrow> error + nat list" where
  "py_bytes (PBool b) = Inr (replicate (if b then 1 else 0) 0)"
| "py_bytes (PInt i) = (if i < 0 then Inl ValueError else Inr (replicate (nat i) 0))"
| "py_bytes (PBytes bs) = Inr bs"
| "py_bytes (PList xs) = bytes_of_list xs"
| "py_bytes (PDict kvs) = (if kvs = [] then Inr [] else Inl TypeError)"
| "py_bytes _ = Inl TypeError"

section \<open>SenMLMeasurement\<close>

text \<open>The \<open>attr.s\<close> class: seven attributes, each defaulting to \<open>None\<close>.\<close>

record measurement =
  name :: pyval
  time :: pyval
  unit :: pyval
  value' :: pyval
  sum' :: pyval
  update_time :: pyval
  version :: pyval

definition template :: measurement where
  "template = \<lparr> name = PNone, time = PNone, unit = PNone, value' = PNone, sum' = PNone,
                update_time = PNone, version = PNone \<rparr>"

text \<open>
  \<open>time.time()\<close> is the only effect of the module.  The clock is the sequence of its
  successive readings; the state is the number of readings taken so far.
\<close>

type_synonym clock = "nat \<Rightarrow> rat"

definition time_time :: "clock \<Rightarrow> nat \<Rightarrow> pyval \<times> nat" where
  "time_time clk k = (PFloat (clk k), Suc k)"

text \<open>\<open>isinstance(v, (bool, bytes, str))\<close>\<close>

fun is_bool_bytes_str :: "pyval \<Rightarrow> bool" where
  "is_bool_bytes_str (PBool b) = True"
| "is_bool_bytes_str (PBytes bs) = True"
| "is_bool_bytes_str (PStr s) = True"
| "is_bool_bytes_str _ = False"

text \<open>
  \<open>to_absolute\<close>, statement by statement.  An entry that the source leaves out of
  \<open>attrs\<close> takes the attribute's default \<open>None\<close>.  The name, the time and the unit of the
  dictionary literal are evaluated first, then the sum, the value and the time again.
\<close>

definition to_absolute :: "clock \<Rightarrow> measurement \<Rightarrow> measurement \<Rightarrow> nat \<Rightarrow> error + (measurement \<times> nat)" where
  "to_absolute clk self base k =
     bindE (py_add (py_or (name base) (PStr [])) (py_or (name self) (PStr []))) (\<lambda>n.
     bindE (py_add (py_or (time base) (PInt 0)) (py_or (time self) (PInt 0))) (\<lambda>t0.
     bindE (if truthy (py_or (sum' base) (sum' self))
            then py_add (py_or (sum' base) (PInt 0)) (py_or (sum' self) (PInt 0))
            else Inr PNone) (\<lambda>s.
     bindE (if is_bool_bytes_str (value' self) then Inr (value' self)
            else if py_or (value' self) (value' base) \<noteq> PNone
            then py_add (py_or (value' base) (PInt 0)) (py_or (value' self) (PInt 0))
            else Inr PNone) (\<lambda>v.
     bindE (py_add (py_or (time base) (PInt 0)) (py_or (time self) (PInt 0))) (\<lambda>t.
     bindE (py_lt_int t 268435456) (\<lambda>rel.
     bindE (if rel
            then (case time_time clk k of (epoch_time_now, k') \<Rightarrow>
                    bindE (py_add t epoch_time_now) (\<lambda>t'. Inr (t', k')))
            else Inr (t, k)) (\<lambda>(t', k').
     Inr (\<lparr> name = n, time = t', unit = py_or (unit self) (unit base), value' = v,
            sum' = s, update_time = update_time self, version = PNone \<rparr>, k'))))))))"

subsection \<open>Numeric cleanup\<close>

text \<open>\<open>isinstance(val, (float, int))\<close>; a boolean is an \<open>int\<close>.\<close>

fun is_float_int :: "pyval \<Rightarrow> bool" where
  "is_float_int (PBool b) = True"
| "is_float_int (PInt i) = True"
| "is_float_int (PFloat r) = True"
| "is_float_int _ = False"

text \<open>
  \<open>numeric\<close>: the test \<open>float(val) == int(float(val))\<close> first, then \<open>int(val)\<close> on the
  original object when the test holds and \<open>float(val)\<close> when it does not.
\<close>

definition numeric :: "pyval \<Rightarrow> error + pyval" where
  "numeric val =
     (if val = PNone \<or> is_float_int val then Inr val
      else bindE (py_float val) (\<lambda>f.
           bindE (int_of_flt f) (\<lambda>i.
             case f of
               Finite r \<Rightarrow>
                 if r = of_int i then bindE (py_int val) (\<lambda>n. Inr (PInt n))
                 else Inr (PFloat r)
             | _ \<Rightarrow> Inl ValueError)))"

text \<open>
  \<open>clean_attrs\<close> rewrites the keys \<open>time\<close>, \<open>sum\<close>, \<open>value\<close> and \<open>version\<close> of the
  attribute dictionary, in this order; a key the dictionary lacks reads as \<open>None\<close> and is
  stored as \<open>None\<close>.  The dictionary is the record of its entries.
\<close>

definition clean_attrs :: "measurement \<Rightarrow> error + measurement" where
  "clean_attrs attrs =
     bindE (numeric (time attrs)) (\<lambda>t.
     bindE (numeric (sum' attrs)) (\<lambda>s.
     bindE (numeric (value' attrs)) (\<lambda>v.
     bindE (numeric (version attrs)) (\<lambda>ver.
     Inr (attrs\<lparr> time := t, sum' := s, value' := v, version := ver \<rparr>)))))"

subsection \<open>The base\<close>

text \<open>A decoded JSON object, and \<open>data.get(key, default)\<close>.\<close>

type_synonym json_record = "string \<rightharpoonup> pyval"

definition dict_get :: "json_record \<Rightarrow> string \<Rightarrow> pyval \<Rightarrow> pyval" where
  "dict_get data k d = (case data k of None \<Rightarrow> d | Some v \<Rightarrow> v)"

text \<open>
  The set of base versions.  Python compares and hashes numbers by value, so \<open>1\<close>, \<open>1.0\<close>
  and \<open>True\<close> are one element; the element that stays is the one added first.  Only
  numbers reach the set, since \<open>numeric\<close> returned the version.  The set is kept as the
  list of its elements.
\<close>

definition set_add :: "pyval \<Rightarrow> pyval list \<Rightarrow> pyval list" where
  "set_add v s = (if list_ex (\<lambda>x. as_num x = as_num v) s then s else s @ [v])"

definition base_from_json :: "json_record \<Rightarrow> pyval list option \<Rightarrow> error + (measurement \<times> pyval list option)" where
  "base_from_json data version_set =
     bindE (clean_attrs
        \<lparr> name = dict_get data ''bn'' (name template),
          time = dict_get data ''bt'' (time template),
          unit = dict_get data ''bu'' (unit template),
          value' = dict_get data ''bv'' (value' template),
          sum' = dict_get data ''bs'' (sum' template),
          update_time = PNone,
          version = dict_get data ''bver'' (version template) \<rparr>) (\<lambda>attrs.
     let base_version = version attrs in
     Inr (attrs,
          if truthy base_version \<and> version_set \<noteq> None
          then map_option (set_add base_version) version_set
          else version_set))"

text \<open>
  \<open>update_base\<close> assigns into the base object it was given and returns that object; the
  model returns the updated record.
\<close>

definition update_base :: "measurement option \<Rightarrow> json_record \<Rightarrow> pyval list option \<Rightarrow> error + (measurement \<times> pyval list option)" where
  "update_base base record version_set =
     bindE (base_from_json record version_set) (\<lambda>(new_base, vs).
     case base of
       None \<Rightarrow> Inr (new_base, vs)
     | Some b \<Rightarrow>
         Inr (b\<lparr> name := if name new_base \<noteq> PNone then name new_base else name b,
                 time := if time new_base \<noteq> PNone then time new_base else time b,
                 unit := if unit new_base \<noteq> PNone then unit new_base else unit b,
                 value' := if value' new_base \<noteq> PNone then value' new_base else value' b,
                 sum' := if sum' new_base \<noteq> PNone then sum' new_base else sum' b,
                 version := if version new_base \<noteq> PNone then version new_base else version b \<rparr>,
              vs))"

subsection \<open>Parsing one record\<close>

text \<open>
  \<open>is_valid\<close> returns \<open>False\<close> for the name \<open>""\<close>; without a value it returns \<open>False\<close>
  when the record has one of the base keys and raises otherwise.
\<close>

definition is_valid :: "measurement \<Rightarrow> json_record \<Rightarrow> error + bool" where
  "is_valid measurement data =
     (if name measurement = PStr [] then Inr False
      else if value' measurement = PNone
      then (if list_ex (\<lambda>key. key \<in> dom data) [''bn'', ''bt'', ''bu'', ''bv'', ''bs'', ''bver'']
            then Inr False
            else Inl InvalidSenML)
      else Inr True)"

text \<open>\<open>isinstance(v, int)\<close>\<close>

fun is_int :: "pyval \<Rightarrow> bool" where
  "is_int (PBool b) = True"
| "is_int (PInt i) = True"
| "is_int _ = False"

text \<open>\<open>float(v)\<close> stored as a value; every float that \<open>from_json\<close> stores is finite.\<close>

definition to_float :: "pyval \<Rightarrow> error + pyval" where
  "to_float v =
     bindE (py_float v) (\<lambda>f.
       case f of Finite r \<Rightarrow> Inr (PFloat r) | _ \<Rightarrow> Inl OverflowError)"

text \<open>
  \<open>from_json\<close> returns the measurement, or \<open>None\<close> for a record that \<open>is_valid\<close> turns
  down without raising.
\<close>

definition from_json :: "(pyval \<Rightarrow> string) \<Rightarrow> json_record \<Rightarrow> error + measurement option" where
  "from_json rp data =
     bindE (clean_attrs
        \<lparr> name = dict_get data ''n'' (name template),
          time = dict_get data ''t'' (time template),
          unit = dict_get data ''u'' (unit template),
          value' = dict_get data ''v'' (value' template),
          sum' = dict_get data ''s'' (sum' template),
          update_time = dict_get data ''ut'' (update_time template),
          version = PNone \<rparr>) (\<lambda>attrs.
     bindE (if value' attrs = PNone
            then (case data ''vs'' of
                    Some vs \<Rightarrow> Inr (attrs\<lparr> value' := PStr (py_str rp vs) \<rparr>)
                  | None \<Rightarrow>
                 (case data ''vb'' of
                    Some vb \<Rightarrow>
                      if casefold (py_str rp vb) = casefold ''false''
                         \<or> casefold (py_str rp vb) = casefold ''0''
                      then Inr (attrs\<lparr> value' := PBool False \<rparr>)
                      else Inr (attrs\<lparr> value' := PBool True \<rparr>)
                  | None \<Rightarrow>
                 (case data ''vd'' of
                    Some vd \<Rightarrow> bindE (py_bytes vd) (\<lambda>bs. Inr (attrs\<lparr> value' := PBytes bs \<rparr>))
                  | None \<Rightarrow> Inr attrs)))
            else if is_int (value' attrs)
            then bindE (to_float (value' attrs)) (\<lambda>f. Inr (attrs\<lparr> value' := f \<rparr>))
            else Inr attrs) (\<lambda>attrs.
     bindE (is_valid attrs data) (\<lambda>ok.
     Inr (if ok then Some attrs else None))))"

subsection \<open>Serialising one measurement\<close>

definition to_json :: "(pyval \<Rightarrow> string) \<Rightarrow> measurement \<Rightarrow> error + json_record" where
  "to_json rp self =
     (let ret = Map.empty;
          ret = (if name self \<noteq> PNone then ret(''n'' \<mapsto> PStr (py_str rp (name self))) else ret)
      in
     bindE (if time self \<noteq> PNone
            then bindE (numeric (time self)) (\<lambda>t. Inr (ret(''t'' \<mapsto> t)))
            else Inr ret) (\<lambda>ret.
     let ret = (if unit self \<noteq> PNone then ret(''u'' \<mapsto> PStr (py_str rp (unit self))) else ret)
      in
     bindE (if sum' self \<noteq> PNone
            then bindE (numeric (sum' self)) (\<lambda>s. Inr (ret(''s'' \<mapsto> s)))
            else Inr ret) (\<lambda>ret.
     bindE (if update_time self \<noteq> PNone
            then bindE (numeric (update_time self)) (\<lambda>ut. Inr (ret(''ut'' \<mapsto> ut)))
            else Inr ret) (\<lambda>ret.
     let ret = (if version self \<noteq> PNone then ret(''bver'' \<mapsto> version self) else ret)
      in
     case value' self of
       PBool b \<Rightarrow> Inr (ret(''vb'' \<mapsto> value' self))
     | PBytes bs \<Rightarrow> Inr (ret(''vd'' \<mapsto> value' self))
     | PStr s \<Rightarrow> Inr (ret(''vs'' \<mapsto> value' self))
     | _ \<Rightarrow>
         if value' self \<noteq> PNone
         then bindE (numeric (value' self)) (\<lambda>v. Inr (ret(''v'' \<mapsto> v)))
         else if sum' self = PNone then Inl SumOrValueMissing
         else Inr ret))))"

section \<open>SenMLDocument\<close>

text \<open>
  A document is the list held in its \<open>measurements\<close> attribute.  The loop of
  \<open>from_json\<close> carries the base, the measurements collected so far, the set of base
  versions and the number of clock readings.
\<close>

record parse_state =
  st_base :: "measurement option"
  st_measurements :: "measurement list"
  st_version_set :: "pyval list option"
  st_ticks :: nat

definition init_state :: parse_state where
  "init_state = \<lparr> st_base = None, st_measurements = [], st_version_set = Some [], st_ticks = 0 \<rparr>"

fun parse_records :: "(pyval \<Rightarrow> string) \<Rightarrow> clock \<Rightarrow> json_record list \<Rightarrow> parse_state \<Rightarrow> error + parse_state" where
  "parse_records rp clk [] st = Inr st"
| "parse_records rp clk (record # rest) st =
     bindE (update_base (st_base st) record (st_version_set st)) (\<lambda>(b, vs).
     bindE (from_json rp record) (\<lambda>measurement.
     case measurement of
       None \<Rightarrow> parse_records rp clk rest (st\<lparr> st_base := Some b, st_version_set := vs \<rparr>)
     | Some m \<Rightarrow>
         bindE (to_absolute clk m b (st_ticks st)) (\<lambda>(a, k).
         parse_records rp clk rest
           (st\<lparr> st_base := Some b, st_measurements := st_measurements st @ [a],
                st_version_set := vs, st_ticks := k \<rparr>))))"

text \<open>
  The version gate.  \<open>version_set.pop()\<close> on a one-element set returns that element.
\<close>

definition version_gate :: "pyval list \<Rightarrow> measurement list \<Rightarrow> error + measurement list" where
  "version_gate vs ms =
     (if length vs > 1 then Inl MultipleBaseVersion
      else if length vs = 1
      then (case vs of
              v # _ \<Rightarrow> bindE (py_lt_int v 10) (\<lambda>lt.
                         if lt then Inr (map (\<lambda>m. m\<lparr> version := v \<rparr>) ms) else Inr [])
            | [] \<Rightarrow> Inr ms)
      else Inr ms)"

text \<open>
  \<open>sorted(measurements, key=lambda x: x.time)\<close>: a stable sort by the key.  The keys are
  compared with \<open><\<close>, which raises on a key that is no number; \<open>to_absolute\<close> only
  returns numbers as times, so that branch is never taken.
\<close>

definition time_key :: "measurement \<Rightarrow> rat" where
  "time_key m = (case as_num (time m) of Some x \<Rightarrow> x | None \<Rightarrow> 0)"

definition sorted_by_time :: "measurement list \<Rightarrow> error + measurement list" where
  "sorted_by_time ms =
     (if list_all (\<lambda>m. as_num (time m) \<noteq> None) ms then Inr (sort_key time_key ms)
      else Inl TypeError)"

definition document_from_json :: "(pyval \<Rightarrow> string) \<Rightarrow> clock \<Rightarrow> json_record list \<Rightarrow> error + measurement list" where
  "document_from_json rp clk json_data =
     bindE (parse_records rp clk json_data init_state) (\<lambda>st.
     bindE (version_gate (case st_version_set st of Some vs \<Rightarrow> vs | None \<Rightarrow> []) (st_measurements st)) (\<lambda>ms.
     if length ms > 0 then sorted_by_time ms else Inr []))"



section \<open>Objects and references\<close>

text \<open>
  The functions above pass measurements by value.  The source passes references:
  \<open>update_base\<close> assigns into the base object, and the version gate assigns into the
  measurements it has collected.  To say which objects a step changes, the same
  functions are written once more over a heap: the list of all measurement objects
  created so far, an object's address being its index.  Creating an object appends it.
  A reference held by the program is always an address below the length of the heap.
\<close>

type_synonym heap = "measurement list"

definition new_object :: "heap \<Rightarrow> measurement \<Rightarrow> nat \<times> heap" where
  "new_object h m = (length h, h @ [m])"

text \<open>\<open>self.__class__(**attrs)\<close> at the end of \<open>to_absolute\<close> is the only object it touches.\<close>

definition h_to_absolute :: "clock \<Rightarrow> heap \<Rightarrow> nat \<Rightarrow> nat \<Rightarrow> nat \<Rightarrow> error + (nat \<times> heap \<times> nat)" where
  "h_to_absolute clk h self base k =
     bindE (to_absolute clk (h ! self) (h ! base) k) (\<lambda>(ret, k').
     case new_object h ret of (a, h') \<Rightarrow> Inr (a, h', k'))"

definition h_base_from_json :: "heap \<Rightarrow> json_record \<Rightarrow> pyval list option \<Rightarrow> error + (nat \<times> heap \<times> pyval list option)" where
  "h_base_from_json h data version_set =
     bindE (base_from_json data version_set) (\<lambda>(attrs, vs).
     case new_object h attrs of (a, h') \<Rightarrow> Inr (a, h', vs))"

text \<open>\<open>obj.field = x\<close>: the object at the address changes, every other object stays.\<close>

definition assign :: "heap \<Rightarrow> nat \<Rightarrow> (measurement \<Rightarrow> measurement) \<Rightarrow> heap" where
  "assign h a f = h[a := f (h ! a)]"

text \<open>The six conditional assignments of \<open>update_base\<close> into the base object.\<close>

definition assign_base_fields :: "heap \<Rightarrow> nat \<Rightarrow> nat \<Rightarrow> heap" where
  "assign_base_fields h b new_base =
     (let h = (if name (h ! new_base) \<noteq> PNone
               then assign h b (\<lambda>obj. obj\<lparr> name := name (h ! new_base) \<rparr>) else h);
          h = (if time (h ! new_base) \<noteq> PNone
               then assign h b (\<lambda>obj. obj\<lparr> time := time (h ! new_base) \<rparr>) else h);
          h = (if unit (h ! new_base) \<noteq> PNone
               then assign h b (\<lambda>obj. obj\<lparr> unit := unit (h ! new_base) \<rparr>) else h);
          h = (if value' (h ! new_base) \<noteq> PNone
               then assign h b (\<lambda>obj. obj\<lparr> value' := value' (h ! new_base) \<rparr>) else h);
          h = (if sum' (h ! new_base) \<noteq> PNone
               then assign h b (\<lambda>obj. obj\<lparr> sum' := sum' (h ! new_base) \<rparr>) else h);
          h = (if version (h ! new_base) \<noteq> PNone
               then assign h b (\<lambda>obj. obj\<lparr> version := version (h ! new_base) \<rparr>) else h)
      in h)"

definition h_update_base :: "heap \<Rightarrow> nat option \<Rightarrow> json_record \<Rightarrow> pyval list option \<Rightarrow> error + (nat \<times> heap \<times> pyval list option)" where
  "h_update_base h base record version_set =
     bindE (h_base_from_json h record version_set) (\<lambda>(new_base, h, vs).
     case base of
       None \<Rightarrow> Inr (new_base, h, vs)
     | Some b \<Rightarrow> Inr (b, assign_base_fields h b new_base, vs))"

definition h_from_json :: "(pyval \<Rightarrow> string) \<Rightarrow> heap \<Rightarrow> json_record \<Rightarrow> error + (nat option \<times> heap)" where
  "h_from_json rp h data =
     bindE (from_json rp data) (\<lambda>r.
     case r of
       None \<Rightarrow> Inr (None, h)
     | Some attrs \<Rightarrow> (case new_object h attrs of (a, h') \<Rightarrow> Inr (Some a, h')))"

record h_state =
  hp :: heap
  h_base :: "nat option"
  h_measurements :: "nat list"
  h_version_set :: "pyval list option"
  h_ticks :: nat

definition h_init_state :: h_state where
  "h_init_state = \<lparr> hp = [], h_base = None, h_measurements = [], h_version_set = Some [], h_ticks = 0 \<rparr>"

fun h_parse_records :: "(pyval \<Rightarrow> string) \<Rightarrow> clock \<Rightarrow> json_record list \<Rightarrow> h_state \<Rightarrow> error + h_state" where
  "h_parse_records rp clk [] st = Inr st"
| "h_parse_records rp clk (record # rest) st =
     bindE (h_update_base (hp st) (h_base st) record (h_version_set st)) (\<lambda>(b, h, vs).
     bindE (h_from_json rp h record) (\<lambda>(measurement, h).
     case measurement of
       None \<Rightarrow> h_parse_records rp clk rest (st\<lparr> hp := h, h_base := Some b, h_version_set := vs \<rparr>)
     | Some m \<Rightarrow>
         bindE (h_to_absolute clk h m b (h_ticks st)) (\<lambda>(a, h, k).
         h_parse_records rp clk rest
           (st\<lparr> hp := h, h_base := Some b, h_measurements := h_measurements st @ [a],
                h_version_set := vs, h_ticks := k \<rparr>))))"

text \<open>\<open>for measurement in measurements: measurement.version = version\<close>\<close>

fun set_versions :: "pyval \<Rightarrow> heap \<Rightarrow> nat list \<Rightarrow> heap" where
  "set_versions v h [] = h"
| "set_versions v h (a # as) = set_versions v (assign h a (\<lambda>obj. obj\<lparr> version := v \<rparr>)) as"

definition h_version_gate :: "pyval list \<Rightarrow> heap \<Rightarrow> nat list \<Rightarrow> error + (heap \<times> nat list)" where
  "h_version_gate vs h ms =
     (if length vs > 1 then Inl MultipleBaseVersion
      else if length vs = 1
      then (case vs of
              v # _ \<Rightarrow> bindE (py_lt_int v 10) (\<lambda>lt.
                         if lt then Inr (set_versions v h ms, ms) else Inr (h, []))
            | [] \<Rightarrow> Inr (h, ms))
      else Inr (h, ms))"

definition h_sorted_by_time :: "heap \<Rightarrow> nat list \<Rightarrow> error + nat list" where
  "h_sorted_by_time h ms =
     (if list_all (\<lambda>a. as_num (time (h ! a)) \<noteq> None) ms
      then Inr (sort_key (\<lambda>a. time_key (h ! a)) ms)
      else Inl TypeError)"

text \<open>The heap at the end, and the addresses in the \<open>measurements\<close> list of the document.\<close>

definition h_document_from_json :: "(pyval \<Rightarrow> string) \<Rightarrow> clock \<Rightarrow> json_record list \<Rightarrow> error + (heap \<times> nat list)" where
  "h_document_from_json rp clk json_data =
     bindE (h_parse_records rp clk json_data h_init_state) (\<lambda>st.
     bindE (h_version_gate (case h_version_set st of Some vs \<Rightarrow> vs | None \<Rightarrow> [])
              (hp st) (h_measurements st)) (\<lambda>(h, ms).
     if length ms > 0 then bindE (h_sorted_by_time h ms) (\<lambda>ordered. Inr (h, ordered))
     else Inr (h, [])))"

text \<open>
  What the loop maintains: every collected address and the base address are live, and
  the base object is none of the collected measurements.
\<close>

definition h_wf :: "h_state \<Rightarrow> bool" where
  "h_wf st =
     (list_all (\<lambda>a. a < length (hp st)) (h_measurements st)
      \<and> (case h_base st of
            None \<Rightarrow> True
          | Some b \<Rightarrow> b < length (hp st) \<and> list_all (\<lambda>a. a \<noteq> b) (h_measurements st)))"

text \<open>The state of the loop over values that a state over the heap stands for.\<close>

definition state_of :: "h_state \<Rightarrow> parse_state" where
  "state_of st =
     \<lparr> st_base = map_option (\<lambda>b. hp st ! b) (h_base st),
       st_measurements = map (\<lambda>a. hp st ! a) (h_measurements st),
       st_version_set = h_version_set st,
       st_ticks = h_ticks st \<rparr>"

section \<open>Well-typed measurements\<close>

text \<open>
  The data model gives every field a type: the name is text, the time and the sum are
  numbers, the value is a number, a boolean, text or bytes, and each may be absent.
  \<open>to_absolute\<close> accepts any object in any field; on fields of these types it returns.
\<close>

definition numeric_or_none :: "pyval \<Rightarrow> bool" where
  "numeric_or_none v = (case v of PNone \<Rightarrow> True | _ \<Rightarrow> (case as_num v of Some x \<Rightarrow> True | None \<Rightarrow> False))"



section \<open>Blocks of \<open>from_json\<close>\<close>

text \<open>
  The second statement of \<open>from_json\<close>, on its own: the alternate encodings of the value
  when the cleaned value is \<open>None\<close>, the widening to a float when it is an \<open>int\<close>.
\<close>

definition alternates :: "(pyval \<Rightarrow> string) \<Rightarrow> json_record \<Rightarrow> measurement \<Rightarrow> error + measurement" where
  "alternates rp data attrs =
     (if value' attrs = PNone
      then (case data ''vs'' of
              Some vs \<Rightarrow> Inr (attrs\<lparr> value' := PStr (py_str rp vs) \<rparr>)
            | None \<Rightarrow>
           (case data ''vb'' of
              Some vb \<Rightarrow>
                if casefold (py_str rp vb) = casefold ''false''
                   \<or> casefold (py_str rp vb) = casefold ''0''
                then Inr (attrs\<lparr> value' := PBool False \<rparr>)
                else Inr (attrs\<lparr> value' := PBool True \<rparr>)
            | None \<Rightarrow>
           (case data ''vd'' of
              Some vd \<Rightarrow> bindE (py_bytes vd) (\<lambda>bs. Inr (attrs\<lparr> value' := PBytes bs \<rparr>))
            | None \<Rightarrow> Inr attrs)))
      else if is_int (value' attrs)
      then bindE (to_float (value' attrs)) (\<lambda>f. Inr (attrs\<lparr> value' := f \<rparr>))
      else Inr attrs)"

text \<open>The attribute dictionary that \<open>from_json\<close> reads from the record.\<close>

definition own_attrs :: "json_record \<Rightarrow> measurement" where
  "own_attrs data =
     \<lparr> name = dict_get data ''n'' PNone,
       time = dict_get data ''t'' PNone,
       unit = dict_get data ''u'' PNone,
       value' = dict_get data ''v'' PNone,
       sum' = dict_get data ''s'' PNone,
       update_time = dict_get data ''ut'' PNone,
       version = PNone \<rparr>"

text \<open>The record carries one of the keys that define a base.\<close>

definition has_base_key :: "json_record \<Rightarrow> bool" where
  "has_base_key data = list_ex (\<lambda>key. key \<in> dom data) [''bn'', ''bt'', ''bu'', ''bv'', ''bs'', ''bver'']"

section \<open>Documents that survive a round trip\<close>






section \<open>Parameters of the examples\<close>

text \<open>
  The examples run the functions on records that hold \<open>None\<close>, booleans, integers, simple
  floats and strings.  \<open>str\<close> is never applied to a float or a container there, so the
  \<open>repr\<close> parameter is never called and any function serves; the clock reads 1000 at
  every call.
\<close>

definition no_repr :: "pyval \<Rightarrow> string" where
  "no_repr v = []"

definition clock_1000 :: clock where
  "clock_1000 k = 1000"

section \<open>Properties\<close>

lemmas text_defs = py_float_str_def py_int_str_def parse_sign_def strip_def is_space_def
  is_space_ascii_def
  casefold_def lower_def parse_floatnumber_def digitpart_def is_digit_def digit_val_def
  mk_float_def parse_exponent_def digits_val_def pow10_def trunc_def

lemmas record_defs = numeric_def clean_attrs_def dict_get_def set_add_def base_from_json_def
  update_base_def is_valid_def to_float_def from_json_def to_json_def template_def Let_def

lemmas absolute_defs = to_absolute_def py_or_def py_add_def py_lt_int_def time_time_def

lemmas document_defs = init_state_def version_gate_def time_key_def sorted_by_time_def
  document_from_json_def no_repr_def clock_1000_def

subsection \<open>The error monad and the arithmetic of values\<close>

lemma bindE_simps [simp]: "bindE (Inl e) f = Inl e" "bindE (Inr x) f = f x"
  by (simp_all add: bindE_def)

lemma bindE_eq_Inr: "bindE m f = Inr y \<longleftrightarrow> (\<exists>x. m = Inr x \<and> f x = Inr y)"
  by (cases m) simp_all

lemma bindE_eq_Inl: "bindE m f = Inl e \<longleftrightarrow> m = Inl e \<or> (\<exists>x. m = Inr x \<and> f x = Inl e)"
  by (cases m) simp_all





lemma numeric_or_none_cases: "numeric_or_none v \<Longrightarrow> v = PNone \<or> (\<exists>x. as_num v = Some x)"
  by (cases v) (auto simp: numeric_or_none_def)




subsection \<open>Absolutization\<close>




text \<open>
  C1 (sum and value of the resolved measurement).  The source tests the truth value of
  \<open>base.sum or self.sum\<close> and of \<open>self.value or base.value\<close>, so a sum of 0 and a value of
  0.0 count as absent: with an empty base, the measurement with value 0.0 and sum 0
  resolves to a measurement that has neither a value nor a sum.
\<close>

theorem to_absolute_drops_zero:
  "to_absolute clock_1000
     (template\<lparr> name := PStr ''x'', time := PInt 268435456, value' := PFloat 0, sum' := PInt 0 \<rparr>)
     template 0
   = Inr (\<lparr> name = PStr ''x'', time = PInt 268435456, unit = PNone, value' = PNone,
            sum' = PNone, update_time = PNone, version = PNone \<rparr>, 0)"
  by (simp add: to_absolute_def template_def py_or_def py_add_def py_lt_int_def)



subsection \<open>Numeric cleanup and the parsing of one record\<close>

lemma py_float_str_error: "py_float_str sp s = Inl e \<Longrightarrow> e = ValueError"
  by (auto simp: py_float_str_def split: prod.splits if_splits option.splits)

lemma py_int_str_error: "py_int_str sp s = Inl e \<Longrightarrow> e = ValueError"
  by (auto simp: py_int_str_def split: prod.splits if_splits option.splits list.splits)

lemma py_float_error: "py_float v = Inl e \<Longrightarrow> e = ValueError \<or> e = TypeError"
  by (cases v) (auto dest: py_float_str_error)

lemma py_int_error: "py_int v = Inl e \<Longrightarrow> e = ValueError \<or> e = TypeError"
  by (cases v) (auto dest: py_int_str_error)

lemma int_of_flt_error: "int_of_flt f = Inl e \<Longrightarrow> e = ValueError \<or> e = OverflowError"
  by (cases f) auto

lemma numeric_error: "numeric v = Inl e \<Longrightarrow> e = ValueError \<or> e = TypeError \<or> e = OverflowError"
proof -
  assume a: "numeric v = Inl e"
  show ?thesis
  proof (cases "v = PNone \<or> is_float_int v")
    case True
    with a show ?thesis by (simp add: numeric_def)
  next
    case False
    show ?thesis
    proof (cases "py_float v")
      case (Inl e')
      with a False show ?thesis by (auto simp: numeric_def dest: py_float_error)
    next
      case (Inr f)
      with a False show ?thesis
        by (cases f) (auto simp: numeric_def bindE_eq_Inl split: if_splits dest: py_int_error)
    qed
  qed
qed

lemma numeric_passes: "v = PNone \<or> is_float_int v \<Longrightarrow> numeric v = Inr v"
  by (auto simp: numeric_def)

lemma numeric_Inr:
  assumes "numeric v = Inr w"
  shows "(w = v \<and> (v = PNone \<or> is_float_int v)) \<or> (\<exists>i. w = PInt i) \<or> (\<exists>r. w = PFloat r)"
proof (cases "v = PNone \<or> is_float_int v")
  case True
  with assms show ?thesis by (simp add: numeric_def)
next
  case False
  with assms obtain f where "py_float v = Inr f"
    by (auto simp: numeric_def bindE_eq_Inr)
  with assms False show ?thesis
    by (cases f) (auto simp: numeric_def bindE_eq_Inr split: if_splits)
qed

lemma numeric_PNone: "numeric v = Inr PNone \<longleftrightarrow> v = PNone"
  using numeric_Inr [of v PNone] numeric_passes [of v] by auto

lemma to_float_Inr: "to_float v = Inr w \<Longrightarrow> \<exists>r. w = PFloat r"
proof -
  assume a: "to_float v = Inr w"
  then obtain f where f: "py_float v = Inr f" by (auto simp: to_float_def bindE_eq_Inr)
  with a show ?thesis by (cases f) (auto simp: to_float_def)
qed

lemma numeric_of_None [simp]: "numeric PNone = Inr PNone"
  by (simp add: numeric_def)

lemma clean_attrs_error: "clean_attrs a = Inl e \<Longrightarrow> e = ValueError \<or> e = TypeError \<or> e = OverflowError"
  by (auto simp: clean_attrs_def bindE_eq_Inl dest: numeric_error)

lemma clean_attrs_Inr:
  "clean_attrs a = Inr a' \<longleftrightarrow>
     (\<exists>t s v ver. numeric (time a) = Inr t \<and> numeric (sum' a) = Inr s \<and> numeric (value' a) = Inr v
        \<and> numeric (version a) = Inr ver
        \<and> a' = a\<lparr> time := t, sum' := s, value' := v, version := ver \<rparr>)"
  by (auto simp: clean_attrs_def bindE_eq_Inr)

lemma py_bytes_error: "py_bytes v = Inl e \<Longrightarrow> e = ValueError \<or> e = TypeError"
proof -
  have l: "bytes_of_list xs = Inl e \<Longrightarrow> e = ValueError \<or> e = TypeError" for xs
  proof (induction xs)
    case Nil then show ?case by simp
  next
    case (Cons x xs)
    then show ?case by (cases x) (auto simp: bindE_eq_Inl split: if_splits)
  qed
  show "py_bytes v = Inl e \<Longrightarrow> e = ValueError \<or> e = TypeError"
    by (cases v) (auto split: if_splits dest: l)
qed

lemma to_float_error: "to_float v = Inl e \<Longrightarrow> e = ValueError \<or> e = TypeError \<or> e = OverflowError"
proof (cases "py_float v")
  case (Inl e')
  assume "to_float v = Inl e"
  with Inl show ?thesis by (auto simp: to_float_def dest: py_float_error)
next
  case (Inr f)
  assume "to_float v = Inl e"
  with Inr show ?thesis by (cases f) (auto simp: to_float_def)
qed

lemma is_valid_cases:
  "is_valid m data =
     (if name m = PStr [] then Inr False
      else if value' m \<noteq> PNone then Inr True
      else if has_base_key data then Inr False else Inl InvalidSenML)"
  by (simp add: is_valid_def has_base_key_def)

lemma own_attrs_sel [simp]:
  "name (own_attrs data) = dict_get data ''n'' PNone"
  "time (own_attrs data) = dict_get data ''t'' PNone"
  "unit (own_attrs data) = dict_get data ''u'' PNone"
  "value' (own_attrs data) = dict_get data ''v'' PNone"
  "sum' (own_attrs data) = dict_get data ''s'' PNone"
  "update_time (own_attrs data) = dict_get data ''ut'' PNone"
  "version (own_attrs data) = PNone"
  by (simp_all add: own_attrs_def)

lemma from_json_alt:
  "from_json rp data =
     bindE (clean_attrs (own_attrs data)) (\<lambda>attrs.
     bindE (alternates rp data attrs) (\<lambda>attrs.
     bindE (is_valid attrs data) (\<lambda>ok.
     Inr (if ok then Some attrs else None))))"
  by (simp add: from_json_def alternates_def template_def own_attrs_def)

lemma alternates_error: "alternates rp data a = Inl e \<Longrightarrow> e = ValueError \<or> e = TypeError \<or> e = OverflowError"
  by (auto simp: alternates_def bindE_eq_Inl split: if_splits option.splits
      dest: py_bytes_error to_float_error)

lemma alternates_name: "alternates rp data a = Inr a' \<Longrightarrow> name a' = name a \<and> sum' a' = sum' a"
  by (auto simp: alternates_def bindE_eq_Inr split: if_splits option.splits)

lemma alternates_no_value:
  "alternates rp data a = Inr a' \<Longrightarrow> value' a' = PNone \<longleftrightarrow>
     value' a = PNone \<and> data ''vs'' = None \<and> data ''vb'' = None \<and> data ''vd'' = None"
  by (auto simp: alternates_def bindE_eq_Inr split: if_splits option.splits dest: to_float_Inr)

lemma from_json_invalid:
  assumes "from_json rp data = Inl InvalidSenML"
  shows "dict_get data ''v'' PNone = PNone \<and> data ''vs'' = None \<and> data ''vb'' = None
     \<and> data ''vd'' = None \<and> \<not> has_base_key data \<and> dict_get data ''n'' PNone \<noteq> PStr []"
proof -
  let ?A = "own_attrs data"
  from assms obtain a where a: "clean_attrs ?A = Inr a"
    by (cases "clean_attrs ?A") (auto simp: from_json_alt dest: clean_attrs_error)
  with assms obtain a' where a': "alternates rp data a = Inr a'"
    by (cases "alternates rp data a") (auto simp: from_json_alt dest: alternates_error)
  with a assms have v: "is_valid a' data = Inl InvalidSenML"
    by (cases "is_valid a' data") (auto simp: from_json_alt)
  then have "name a' \<noteq> PStr []" "value' a' = PNone" "\<not> has_base_key data"
    by (auto simp: is_valid_cases split: if_splits)
  moreover from a have "name a = dict_get data ''n'' PNone"
    and "value' a = PNone \<longleftrightarrow> dict_get data ''v'' PNone = PNone"
    by (auto simp: clean_attrs_Inr numeric_PNone)
  ultimately show ?thesis
    using alternates_name [OF a'] alternates_no_value [OF a'] by auto
qed

lemma from_json_raises_invalid:
  assumes "dict_get data ''n'' PNone \<noteq> PStr []" and "dict_get data ''v'' PNone = PNone"
    and "dict_get data ''s'' PNone = PNone"
    and "data ''vs'' = None" and "data ''vb'' = None" and "data ''vd'' = None"
    and "\<not> has_base_key data" and "numeric (dict_get data ''t'' PNone) = Inr t"
  shows "from_json rp data = Inl InvalidSenML"
  using assms by (simp add: from_json_alt clean_attrs_def alternates_def is_valid_cases)

lemma from_json_empty_name:
  assumes "dict_get data ''n'' PNone = PStr []"
  shows "from_json rp data \<noteq> Inl InvalidSenML \<and> (\<forall>m. from_json rp data \<noteq> Inr (Some m))"
proof -
  have "is_valid a' data = Inr False" if "clean_attrs (own_attrs data) = Inr a" and "alternates rp data a = Inr a'" for a a'
    using that assms alternates_name [of rp data a a']
    by (auto simp: clean_attrs_Inr is_valid_cases)
  then show ?thesis
    by (auto simp: from_json_alt bindE_eq_Inl bindE_eq_Inr
        dest: clean_attrs_error alternates_error)
qed

lemma parse_records_aborts:
  "r \<in> set rs \<Longrightarrow> from_json rp r = Inl e \<Longrightarrow> \<exists>e'. parse_records rp clk rs st = Inl e'"
proof (induction rs arbitrary: st)
  case Nil
  then show ?case by simp
next
  case (Cons x xs)
  show ?case
  proof (cases "update_base (st_base st) x (st_version_set st)")
    case (Inl e0)
    then show ?thesis by simp
  next
    case ub: (Inr bv)
    obtain b vs where bv: "bv = (b, vs)" by (cases bv)
    show ?thesis
    proof (cases "from_json rp x")
      case (Inl e1)
      with ub bv show ?thesis by simp
    next
      case fj: (Inr mo)
      with Cons.prems have rin: "r \<in> set xs" by auto
      show ?thesis
      proof (cases mo)
        case None
        with ub bv fj Cons.IH [OF rin Cons.prems(2)] show ?thesis by simp
      next
        case (Some m)
        show ?thesis
        proof (cases "to_absolute clk m b (st_ticks st)")
          case (Inl e2)
          with ub bv fj Some show ?thesis by simp
        next
          case (Inr ak)
          obtain a k where "ak = (a, k)" by (cases ak)
          with Inr ub bv fj Some Cons.IH [OF rin Cons.prems(2)] show ?thesis by simp
        qed
      qed
    qed
  qed
qed

lemma document_aborts:
  "r \<in> set rs \<Longrightarrow> from_json rp r = Inl e \<Longrightarrow> \<exists>e'. document_from_json rp clk rs = Inl e'"
  using parse_records_aborts [of r rs rp e clk init_state]
  by (auto simp: document_from_json_def)

text \<open>
  C2 (numeric cleanup of a string).  A number and \<open>None\<close> pass through, \<open>"10"\<close> becomes the
  integer 10 and \<open>"10.5"\<close> the float 10.5.  For \<open>"10.0"\<close> the test
  \<open>float(val) == int(float(val))\<close> holds and the source then calls \<open>int\<close> on the string
  itself: \<open>int("10.0")\<close> raises \<open>ValueError\<close>, so a numeric string without a fractional
  part is an error instead of the integer 10.
\<close>

theorem numeric_integral_string_raises:
  "numeric (PStr ''10.0'') = Inl ValueError
   \<and> numeric (PStr ''10'') = Inr (PInt 10)
   \<and> numeric (PStr ''10.5'') = Inr (PFloat (21 / 2))
   \<and> numeric (PInt 10) = Inr (PInt 10)
   \<and> numeric PNone = Inr PNone"
  by code_simp

text \<open>
  C4 (invalid records), as the claim states it: a record named \<open>""\<close> would make the parse
  raise.  It does not; the record is skipped and the document is empty.
\<close>

theorem empty_name_is_skipped:
  "document_from_json no_repr clock_1000 [[''n'' \<mapsto> PStr [], ''v'' \<mapsto> PInt 1]] = Inr []"
  by (simp add: record_defs document_defs)

text \<open>
  C4, amended.  \<open>from_json\<close> raises the invalid-record error only for a record without a
  value (no \<open>v\<close>, \<open>vs\<close>, \<open>vb\<close>, \<open>vd\<close>), without a base key and with a name of its own other
  than \<open>""\<close>; it raises it for every such record that has no sum either and whose time
  cleans up.  A record whose own name is \<open>""\<close> never raises that error and never yields
  a measurement.  An error of \<open>from_json\<close> on any record of the list makes the document
  parse fail as a whole.
\<close>

theorem invalid_record:
  "(from_json rp data = Inl InvalidSenML \<longrightarrow>
      dict_get data ''v'' PNone = PNone \<and> data ''vs'' = None \<and> data ''vb'' = None
      \<and> data ''vd'' = None \<and> \<not> has_base_key data \<and> dict_get data ''n'' PNone \<noteq> PStr [])
   \<and> (dict_get data ''n'' PNone \<noteq> PStr [] \<and> dict_get data ''v'' PNone = PNone
      \<and> dict_get data ''s'' PNone = PNone
      \<and> data ''vs'' = None \<and> data ''vb'' = None \<and> data ''vd'' = None
      \<and> \<not> has_base_key data \<and> numeric (dict_get data ''t'' PNone) = Inr t
      \<longrightarrow> from_json rp data = Inl InvalidSenML)
   \<and> (dict_get data ''n'' PNone = PStr [] \<longrightarrow>
      from_json rp data \<noteq> Inl InvalidSenML \<and> (\<forall>m. from_json rp data \<noteq> Inr (Some m)))
   \<and> (r \<in> set json_data \<and> from_json rp r = Inl e \<longrightarrow>
      (\<exists>e'. document_from_json rp clk json_data = Inl e'))"
  using from_json_invalid [of rp data] from_json_raises_invalid [of data t rp]
    from_json_empty_name [of data rp] document_aborts [of r json_data rp e clk]
  by blast

theorem invalid_record_witness:
  "from_json no_repr [''t'' \<mapsto> PInt 5] = Inl InvalidSenML
   \<and> dict_get [''t'' \<mapsto> PInt 5] ''n'' PNone \<noteq> PStr []
   \<and> \<not> has_base_key [''t'' \<mapsto> PInt 5]
   \<and> (\<exists>e'. document_from_json no_repr clock_1000
          [[''n'' \<mapsto> PStr ''x'', ''v'' \<mapsto> PInt 1], [''t'' \<mapsto> PInt 5]] = Inl e')
   \<and> from_json no_repr [''n'' \<mapsto> PStr [], ''v'' \<mapsto> PInt 1] = Inr None"
proof -
  let ?d = "[''t'' \<mapsto> PInt 5] :: json_record"
  have h1: "dict_get ?d ''n'' PNone \<noteq> PStr []" by (simp add: dict_get_def)
  have h2: "\<not> has_base_key ?d" by (simp add: has_base_key_def)
  have h: "dict_get ?d ''n'' PNone \<noteq> PStr [] \<and> dict_get ?d ''v'' PNone = PNone
      \<and> dict_get ?d ''s'' PNone = PNone
      \<and> ?d ''vs'' = None \<and> ?d ''vb'' = None \<and> ?d ''vd'' = None
      \<and> \<not> has_base_key ?d \<and> numeric (dict_get ?d ''t'' PNone) = Inr (PInt 5)"
    using h1 h2 by (simp add: dict_get_def numeric_def)
  have a: "from_json no_repr ?d = Inl InvalidSenML"
    using invalid_record [of no_repr ?d "PInt 5"] h by blast
  have "?d \<in> set [[''n'' \<mapsto> PStr ''x'', ''v'' \<mapsto> PInt 1], ?d]" by simp
  with a have b: "\<exists>e'. document_from_json no_repr clock_1000
          [[''n'' \<mapsto> PStr ''x'', ''v'' \<mapsto> PInt 1], ?d] = Inl e'"
    using invalid_record [of no_repr _ _ ?d
        "[[''n'' \<mapsto> PStr ''x'', ''v'' \<mapsto> PInt 1], ?d]" InvalidSenML clock_1000]
    by blast
  have c: "from_json no_repr [''n'' \<mapsto> PStr [], ''v'' \<mapsto> PInt 1] = Inr None"
    by (simp add: record_defs)
  show ?thesis using a b c h1 h2 by blast
qed

subsection \<open>Base versions\<close>

text \<open>
  C5 (conflicting versions).  \<open>base_from_json\<close> adds the version to the set under
  \<open>if base_version and ...\<close>, so the declared version 0 is never added: a document that
  declares \<open>bver\<close> 0 and then \<open>bver\<close> 5 is parsed without error and both measurements
  are stamped 5.  The versions 5 and 6 in one document do raise.
\<close>

theorem version_zero_not_recorded:
  "document_from_json no_repr clock_1000
     [[''bver'' \<mapsto> PInt 0, ''n'' \<mapsto> PStr ''x'', ''t'' \<mapsto> PInt 268435456, ''v'' \<mapsto> PInt 1],
      [''bver'' \<mapsto> PInt 5, ''n'' \<mapsto> PStr ''y'', ''t'' \<mapsto> PInt 268435457, ''v'' \<mapsto> PInt 2]]
   = Inr [\<lparr> name = PStr ''x'', time = PInt 268435456, unit = PNone, value' = PFloat 1,
             sum' = PNone, update_time = PNone, version = PInt 5 \<rparr>,
          \<lparr> name = PStr ''y'', time = PInt 268435457, unit = PNone, value' = PFloat 2,
             sum' = PNone, update_time = PNone, version = PInt 5 \<rparr>]
   \<and> document_from_json no_repr clock_1000
     [[''bver'' \<mapsto> PInt 5, ''n'' \<mapsto> PStr ''x'', ''t'' \<mapsto> PInt 268435456, ''v'' \<mapsto> PInt 1],
      [''bver'' \<mapsto> PInt 6, ''n'' \<mapsto> PStr ''y'', ''t'' \<mapsto> PInt 268435457, ''v'' \<mapsto> PInt 2]]
   = Inl MultipleBaseVersion"
  by (simp add: record_defs document_defs absolute_defs)

text \<open>
  C6 (the single declared version).  For the same reason a document whose only declared
  version is 0 has an empty version set: its measurement carries no version at all.
  The version 9 is stamped on the measurement, and the version 10 empties the document.
\<close>

theorem version_zero_not_stamped:
  "document_from_json no_repr clock_1000
     [[''bver'' \<mapsto> PInt 0, ''n'' \<mapsto> PStr ''x'', ''t'' \<mapsto> PInt 268435456, ''v'' \<mapsto> PInt 1]]
   = Inr [\<lparr> name = PStr ''x'', time = PInt 268435456, unit = PNone, value' = PFloat 1,
             sum' = PNone, update_time = PNone, version = PNone \<rparr>]
   \<and> document_from_json no_repr clock_1000
     [[''bver'' \<mapsto> PInt 9, ''n'' \<mapsto> PStr ''x'', ''t'' \<mapsto> PInt 268435456, ''v'' \<mapsto> PInt 1]]
   = Inr [\<lparr> name = PStr ''x'', time = PInt 268435456, unit = PNone, value' = PFloat 1,
             sum' = PNone, update_time = PNone, version = PInt 9 \<rparr>]
   \<and> document_from_json no_repr clock_1000
     [[''bver'' \<mapsto> PInt 10, ''n'' \<mapsto> PStr ''x'', ''t'' \<mapsto> PInt 268435456, ''v'' \<mapsto> PInt 1]]
   = Inr []"
  by (simp add: record_defs document_defs absolute_defs)

subsection \<open>Alternate value encodings\<close>

lemma dict_get_upd: "k \<noteq> k' \<Longrightarrow> dict_get (data(k' := x)) k d = dict_get data k d"
  by (simp add: dict_get_def)

lemma own_attrs_upd:
  "k \<notin> {''n'', ''t'', ''u'', ''v'', ''s'', ''ut''} \<Longrightarrow> own_attrs (data(k := x)) = own_attrs data"
  by (auto simp: own_attrs_def dict_get_upd)

lemma has_base_key_upd:
  "k \<notin> {''bn'', ''bt'', ''bu'', ''bv'', ''bs'', ''bver''} \<Longrightarrow> has_base_key (data(k := x)) = has_base_key data"
  by (auto simp: has_base_key_def)

lemma is_valid_upd:
  "k \<notin> {''bn'', ''bt'', ''bu'', ''bv'', ''bs'', ''bver''} \<Longrightarrow> is_valid m (data(k := x)) = is_valid m data"
  by (simp add: is_valid_cases has_base_key_upd)

lemma clean_attrs_value:
  "clean_attrs (own_attrs data) = Inr a \<Longrightarrow> value' a = PNone \<longleftrightarrow> dict_get data ''v'' PNone = PNone"
  by (auto simp: clean_attrs_Inr numeric_PNone)

lemma alternates_value_present:
  "value' a \<noteq> PNone \<Longrightarrow> alternates rp (data(k := x)) a = alternates rp data a"
  by (simp add: alternates_def)

lemma from_json_value_present:
  assumes "dict_get data ''v'' PNone \<noteq> PNone" and "k \<in> {''vs'', ''vb'', ''vd''}"
  shows "from_json rp (data(k := x)) = from_json rp data"
proof -
  have k: "k \<notin> {''n'', ''t'', ''u'', ''v'', ''s'', ''ut''}" "k \<notin> {''bn'', ''bt'', ''bu'', ''bv'', ''bs'', ''bver''}"
    using assms(2) by auto
  show ?thesis
  proof (cases "clean_attrs (own_attrs data)")
    case (Inl e)
    then show ?thesis by (simp add: from_json_alt own_attrs_upd [OF k(1)])
  next
    case (Inr a)
    with assms(1) have "value' a \<noteq> PNone" by (simp add: clean_attrs_value)
    with Inr show ?thesis
      by (simp add: from_json_alt own_attrs_upd [OF k(1)] is_valid_upd [OF k(2)] alternates_value_present)
  qed
qed

lemma casefold_words:
  "casefold ''false'' = ''false''" "casefold ''0'' = ''0''" "casefold ''FALSE'' = ''false''"
  by code_simp+

lemma alternates_vb_ignored:
  "data ''vs'' \<noteq> None \<Longrightarrow> alternates rp (data(''vb'' := x)) a = alternates rp data a"
  by (cases "data ''vs''") (simp_all add: alternates_def)

lemma alternates_vd_ignored:
  "data ''vs'' \<noteq> None \<or> data ''vb'' \<noteq> None \<Longrightarrow>
     alternates rp (data(''vd'' := x)) a = alternates rp data a"
  by (cases "data ''vs''"; cases "data ''vb''") (simp_all add: alternates_def)

lemma from_json_vb_ignored:
  assumes "data ''vs'' \<noteq> None"
  shows "from_json rp (data(''vb'' := x)) = from_json rp data"
  using assms
  by (simp add: from_json_alt own_attrs_upd is_valid_upd alternates_vb_ignored)

lemma from_json_vd_ignored:
  assumes "data ''vs'' \<noteq> None \<or> data ''vb'' \<noteq> None"
  shows "from_json rp (data(''vd'' := x)) = from_json rp data"
  using assms
  by (simp add: from_json_alt own_attrs_upd is_valid_upd alternates_vd_ignored)

lemma from_json_Some:
  assumes "from_json rp data = Inr (Some m)"
  obtains a where "clean_attrs (own_attrs data) = Inr a" and "alternates rp data a = Inr m"
  using assms by (auto simp: from_json_alt bindE_eq_Inr split: if_splits)

lemma from_json_alternate_value:
  assumes "from_json rp data = Inr (Some m)" and "dict_get data ''v'' PNone = PNone"
  shows "(case data ''vs'' of
            Some x \<Rightarrow> value' m = PStr (py_str rp x)
          | None \<Rightarrow>
         (case data ''vb'' of
            Some y \<Rightarrow> value' m = PBool (\<not> (casefold (py_str rp y) = ''false'' \<or> casefold (py_str rp y) = ''0''))
          | None \<Rightarrow>
         (case data ''vd'' of
            Some z \<Rightarrow> (\<exists>bs. py_bytes z = Inr bs \<and> value' m = PBytes bs)
          | None \<Rightarrow> value' m = PNone)))"
proof -
  from assms(1) obtain a where a: "clean_attrs (own_attrs data) = Inr a" and m: "alternates rp data a = Inr m"
    by (rule from_json_Some)
  from a assms(2) have "value' a = PNone" by (simp add: clean_attrs_value)
  with m show ?thesis
    by (auto simp: alternates_def casefold_def lower_def bindE_eq_Inr split: option.splits if_splits)
qed

text \<open>
  C10 (precedence of the alternate encodings).  When \<open>v\<close> is present and not null, the
  keys \<open>vs\<close>, \<open>vb\<close> and \<open>vd\<close> may be set, changed or removed without any effect on
  what \<open>from_json\<close> returns or raises.  When \<open>vs\<close> is present, \<open>vb\<close> and \<open>vd\<close> have no
  effect; when \<open>vb\<close> is present, \<open>vd\<close> has none.  And when \<open>v\<close> is absent or null, the
  value of the measurement is \<open>str(vs)\<close> if \<open>vs\<close> is present, else the boolean read from
  \<open>vb\<close>, else \<open>bytes(vd)\<close>, else absent.
\<close>

theorem alternate_encodings_precedence:
  "(dict_get data ''v'' PNone \<noteq> PNone \<longrightarrow>
      from_json rp (data(''vs'' := a, ''vb'' := b, ''vd'' := c)) = from_json rp data)
   \<and> (data ''vs'' \<noteq> None \<longrightarrow> from_json rp (data(''vb'' := b, ''vd'' := c)) = from_json rp data)
   \<and> (data ''vb'' \<noteq> None \<longrightarrow> from_json rp (data(''vd'' := c)) = from_json rp data)
   \<and> (\<forall>m. from_json rp data = Inr (Some m) \<and> dict_get data ''v'' PNone = PNone \<longrightarrow>
        (case data ''vs'' of
            Some x \<Rightarrow> value' m = PStr (py_str rp x)
          | None \<Rightarrow>
         (case data ''vb'' of
            Some y \<Rightarrow> value' m = PBool (\<not> (casefold (py_str rp y) = ''false'' \<or> casefold (py_str rp y) = ''0''))
          | None \<Rightarrow>
         (case data ''vd'' of
            Some z \<Rightarrow> (\<exists>bs. py_bytes z = Inr bs \<and> value' m = PBytes bs)
          | None \<Rightarrow> value' m = PNone))))"
proof (intro conjI impI allI)
  assume v: "dict_get data ''v'' PNone \<noteq> PNone"
  then have v1: "dict_get (data(''vs'' := a)) ''v'' PNone \<noteq> PNone"
    and v2: "dict_get (data(''vs'' := a, ''vb'' := b)) ''v'' PNone \<noteq> PNone"
    by (simp_all add: dict_get_upd)
  show "from_json rp (data(''vs'' := a, ''vb'' := b, ''vd'' := c)) = from_json rp data"
    using from_json_value_present [OF v, of "''vs''" rp a]
      from_json_value_present [OF v1, of "''vb''" rp b]
      from_json_value_present [OF v2, of "''vd''" rp c]
    by simp
next
  assume vs: "data ''vs'' \<noteq> None"
  then have "(data(''vb'' := b)) ''vs'' \<noteq> None" by simp
  then show "from_json rp (data(''vb'' := b, ''vd'' := c)) = from_json rp data"
    using from_json_vd_ignored [of "data(''vb'' := b)" rp c]
      from_json_vb_ignored [of data rp b] vs
    by simp
next
  assume "data ''vb'' \<noteq> None"
  then show "from_json rp (data(''vd'' := c)) = from_json rp data"
    using from_json_vd_ignored [of data rp c] by simp
next
  fix m
  assume "from_json rp data = Inr (Some m) \<and> dict_get data ''v'' PNone = PNone"
  then show "(case data ''vs'' of
            Some x \<Rightarrow> value' m = PStr (py_str rp x)
          | None \<Rightarrow>
         (case data ''vb'' of
            Some y \<Rightarrow> value' m = PBool (\<not> (casefold (py_str rp y) = ''false'' \<or> casefold (py_str rp y) = ''0''))
          | None \<Rightarrow>
         (case data ''vd'' of
            Some z \<Rightarrow> (\<exists>bs. py_bytes z = Inr bs \<and> value' m = PBytes bs)
          | None \<Rightarrow> value' m = PNone)))"
    using from_json_alternate_value by blast
qed


theorem alternate_encodings_precedence_witness:
  "from_json no_repr [''n'' \<mapsto> PStr ''x'', ''vs'' \<mapsto> PStr ''on'', ''vb'' \<mapsto> PBool False, ''vd'' \<mapsto> PList [PInt 1]]
     = Inr (Some \<lparr> name = PStr ''x'', time = PNone, unit = PNone, value' = PStr ''on'',
                    sum' = PNone, update_time = PNone, version = PNone \<rparr>)
   \<and> from_json no_repr ([''n'' \<mapsto> PStr ''x'', ''vs'' \<mapsto> PStr ''on'', ''vb'' \<mapsto> PBool False, ''vd'' \<mapsto> PList [PInt 1]]
        (''vb'' := None, ''vd'' := None))
     = Inr (Some \<lparr> name = PStr ''x'', time = PNone, unit = PNone, value' = PStr ''on'',
                    sum' = PNone, update_time = PNone, version = PNone \<rparr>)
   \<and> from_json no_repr ([''n'' \<mapsto> PStr ''x'', ''v'' \<mapsto> PInt 3]
        (''vs'' := Some (PStr ''on''), ''vb'' := Some (PBool False), ''vd'' := Some (PList [PInt 1])))
     = Inr (Some \<lparr> name = PStr ''x'', time = PNone, unit = PNone, value' = PFloat 3,
                    sum' = PNone, update_time = PNone, version = PNone \<rparr>)
   \<and> from_json no_repr [''n'' \<mapsto> PStr ''x'', ''vb'' \<mapsto> PStr ''FALSE'', ''vd'' \<mapsto> PList [PInt 1]]
     = Inr (Some \<lparr> name = PStr ''x'', time = PNone, unit = PNone, value' = PBool False,
                    sum' = PNone, update_time = PNone, version = PNone \<rparr>)"
proof -
  let ?d = "[''n'' \<mapsto> PStr ''x'', ''vs'' \<mapsto> PStr ''on'', ''vb'' \<mapsto> PBool False, ''vd'' \<mapsto> PList [PInt 1]] :: json_record"
  let ?e = "[''n'' \<mapsto> PStr ''x'', ''v'' \<mapsto> PInt 3] :: json_record"
  have d: "from_json no_repr ?d
     = Inr (Some \<lparr> name = PStr ''x'', time = PNone, unit = PNone, value' = PStr ''on'',
                    sum' = PNone, update_time = PNone, version = PNone \<rparr>)"
    by (simp add: record_defs)
  have e: "from_json no_repr ?e
     = Inr (Some \<lparr> name = PStr ''x'', time = PNone, unit = PNone, value' = PFloat 3,
                    sum' = PNone, update_time = PNone, version = PNone \<rparr>)"
    by (simp add: record_defs)
  have f: "from_json no_repr [''n'' \<mapsto> PStr ''x'', ''vb'' \<mapsto> PStr ''FALSE'', ''vd'' \<mapsto> PList [PInt 1]]
     = Inr (Some \<lparr> name = PStr ''x'', time = PNone, unit = PNone, value' = PBool False,
                    sum' = PNone, update_time = PNone, version = PNone \<rparr>)"
    by (simp add: record_defs casefold_words)
  have hd: "?d ''vs'' \<noteq> None" by simp
  have he: "dict_get ?e ''v'' PNone \<noteq> PNone" by (simp add: dict_get_def)
  have "from_json no_repr (?d(''vb'' := None, ''vd'' := None)) = from_json no_repr ?d"
    using alternate_encodings_precedence [of ?d no_repr _ None None] hd by blast
  moreover have "from_json no_repr (?e(''vs'' := Some (PStr ''on''), ''vb'' := Some (PBool False),
        ''vd'' := Some (PList [PInt 1]))) = from_json no_repr ?e"
    using alternate_encodings_precedence [of ?e no_repr "Some (PStr ''on'')" "Some (PBool False)"
        "Some (PList [PInt 1])"] he by blast
  ultimately show ?thesis using d e f by simp
qed

subsection \<open>Ordering of the document\<close>








subsection \<open>Round trip\<close>


lemma numeric_number [simp]: "numeric (PInt i) = Inr (PInt i)" "numeric (PFloat r) = Inr (PFloat r)"
  by (simp_all add: numeric_def)


















subsection \<open>Objects changed by a step\<close>

lemma assign_length [simp]: "length (assign h a f) = length h"
  by (simp add: assign_def)

lemma assign_other [simp]: "i \<noteq> a \<Longrightarrow> assign h a f ! i = h ! i"
  by (simp add: assign_def)

lemma assign_same: "a < length h \<Longrightarrow> assign h a f ! a = f (h ! a)"
  by (simp add: assign_def)

lemma h_to_absolute_Inr:
  "h_to_absolute clk h self base k = Inr (a, h', k') \<longleftrightarrow>
     (\<exists>ret. to_absolute clk (h ! self) (h ! base) k = Inr (ret, k') \<and> a = length h \<and> h' = h @ [ret])"
  by (auto simp: h_to_absolute_def new_object_def bindE_eq_Inr)

lemma h_to_absolute_frame:
  assumes "h_to_absolute clk h self base k = Inr (a, h', k')"
  shows "a = length h" and "length h' = Suc (length h)" and "\<forall>i<length h. h' ! i = h ! i"
  using assms by (auto simp: h_to_absolute_Inr nth_append)

lemma h_from_json_frame:
  assumes "h_from_json rp h data = Inr (mo, h')"
  shows "\<forall>i<length h. h' ! i = h ! i"
    and "case mo of None \<Rightarrow> h' = h | Some a \<Rightarrow> a = length h \<and> length h' = Suc (length h)"
  using assms
  by (auto simp: h_from_json_def new_object_def bindE_eq_Inr nth_append split: option.splits)

lemma assign_base_fields_frame [simp]:
  "length (assign_base_fields h b nb) = length h"
  "i \<noteq> b \<Longrightarrow> assign_base_fields h b nb ! i = h ! i"
  by (simp_all add: assign_base_fields_def Let_def)

lemma h_update_base_Inr:
  "h_update_base h base record vs = Inr (b, h', vs') \<longleftrightarrow>
     (\<exists>attrs. base_from_json record vs = Inr (attrs, vs')
        \<and> (case base of
              None \<Rightarrow> b = length h \<and> h' = h @ [attrs]
            | Some b0 \<Rightarrow> b = b0 \<and> h' = assign_base_fields (h @ [attrs]) b0 (length h)))"
  by (cases base)
    (auto simp: h_update_base_def h_base_from_json_def new_object_def bindE_eq_Inr)

lemma h_update_base_frame:
  assumes "h_update_base h base record vs = Inr (b, h', vs')"
  shows "length h' = Suc (length h)"
    and "\<forall>i<length h. Some i \<noteq> base \<longrightarrow> h' ! i = h ! i"
    and "case base of None \<Rightarrow> b = length h | Some b0 \<Rightarrow> b = b0"
  using assms by (cases base; auto simp: h_update_base_Inr nth_append)+

lemma h_step_frame:
  assumes ub: "h_update_base (hp st) (h_base st) r (h_version_set st) = Inr (b, h1, vs)"
    and fj: "h_from_json rp h1 r = Inr (mo, h2)"
    and wf: "h_wf st"
  shows "b < length h2"
    and "\<forall>a\<in>set (h_measurements st). a < length h2 \<and> a \<noteq> b \<and> h2 ! a = hp st ! a"
    and "length (hp st) < length h2"
proof -
  note u = h_update_base_frame [OF ub]
  note f = h_from_json_frame [OF fj]
  have len: "length h1 \<le> length h2"
    using f(2) by (cases mo) auto
  with u(1) show l: "length (hp st) < length h2" by simp
  have b: "b < length h1"
    using u(1) u(3) wf by (cases "h_base st") (auto simp: h_wf_def)
  with len show "b < length h2" by simp
  show "\<forall>a\<in>set (h_measurements st). a < length h2 \<and> a \<noteq> b \<and> h2 ! a = hp st ! a"
  proof
    fix a assume a: "a \<in> set (h_measurements st)"
    with wf have al: "a < length (hp st)" by (auto simp: h_wf_def list_all_iff)
    have nb: "Some a \<noteq> h_base st" "a \<noteq> b"
      using wf a al u(3) by (cases "h_base st"; auto simp: h_wf_def list_all_iff)+
    from al u(1) have "a < length h1" by simp
    with f(1) have "h2 ! a = h1 ! a" by simp
    also from u(2) al nb have "h1 ! a = hp st ! a" by simp
    finally show "a < length h2 \<and> a \<noteq> b \<and> h2 ! a = hp st ! a"
      using al l nb by simp
  qed
qed

lemma h_parse_records_frame:
  "h_parse_records rp clk rs st = Inr st' \<Longrightarrow> h_wf st \<Longrightarrow>
     h_wf st' \<and> length (hp st) \<le> length (hp st')
     \<and> (\<forall>a\<in>set (h_measurements st). hp st' ! a = hp st ! a)
     \<and> (\<exists>new. h_measurements st' = h_measurements st @ new)"
proof (induction rs arbitrary: st)
  case Nil
  then show ?case by simp
next
  case (Cons r rs)
  from Cons.prems(1) obtain b h1 vs mo h2 where
    ub: "h_update_base (hp st) (h_base st) r (h_version_set st) = Inr (b, h1, vs)"
    and fj: "h_from_json rp h1 r = Inr (mo, h2)"
    by (auto simp: bindE_eq_Inr)
  note s = h_step_frame [OF ub fj Cons.prems(2)]
  show ?case
  proof (cases mo)
    case None
    let ?n = "st\<lparr> hp := h2, h_base := Some b, h_version_set := vs \<rparr>"
    from None ub fj Cons.prems(1) have rest: "h_parse_records rp clk rs ?n = Inr st'"
      by simp
    have wf: "h_wf ?n"
      using s by (auto simp: h_wf_def list_all_iff)
    from Cons.IH [OF rest wf] s show ?thesis by auto
  next
    case (Some m)
    with ub fj Cons.prems(1) obtain a h3 k where
      ta: "h_to_absolute clk h2 m b (h_ticks st) = Inr (a, h3, k)"
      and rest: "h_parse_records rp clk rs
           (st\<lparr> hp := h3, h_base := Some b, h_measurements := h_measurements st @ [a],
                h_version_set := vs, h_ticks := k \<rparr>) = Inr st'"
      by (auto simp: bindE_eq_Inr)
    let ?n = "st\<lparr> hp := h3, h_base := Some b, h_measurements := h_measurements st @ [a],
                h_version_set := vs, h_ticks := k \<rparr>"
    note t = h_to_absolute_frame [OF ta]
    have wf: "h_wf ?n"
      using s t by (auto simp: h_wf_def list_all_iff)
    have keep: "\<forall>a\<in>set (h_measurements st). h3 ! a = hp st ! a"
      using s(2) t(3) by auto
    from Cons.IH [OF rest wf] keep s(3) t(2) show ?thesis by auto
  qed
qed


lemma set_versions_nth:
  "i < length h \<Longrightarrow>
     set_versions v h ms ! i = (if i \<in> set ms then (h ! i)\<lparr> version := v \<rparr> else h ! i)"
proof (induction ms arbitrary: h)
  case Nil
  then show ?case by simp
next
  case (Cons a ms)
  have "i < length (assign h a (\<lambda>obj. obj\<lparr> version := v \<rparr>))" using Cons.prems by simp
  from Cons.IH [OF this] Cons.prems show ?case
    by (cases "i = a") (simp_all add: assign_same)
qed



subsection \<open>The heap functions compute what the value functions compute\<close>

lemma assign_base_fields_base:
  assumes "b < length h" and "nb \<noteq> b"
  shows "assign_base_fields h b nb ! b =
     (h ! b)\<lparr> name := if name (h ! nb) \<noteq> PNone then name (h ! nb) else name (h ! b),
              time := if time (h ! nb) \<noteq> PNone then time (h ! nb) else time (h ! b),
              unit := if unit (h ! nb) \<noteq> PNone then unit (h ! nb) else unit (h ! b),
              value' := if value' (h ! nb) \<noteq> PNone then value' (h ! nb) else value' (h ! b),
              sum' := if sum' (h ! nb) \<noteq> PNone then sum' (h ! nb) else sum' (h ! b),
              version := if version (h ! nb) \<noteq> PNone then version (h ! nb) else version (h ! b) \<rparr>"
  using assms by (simp add: assign_base_fields_def Let_def assign_same)

lemma h_update_base_refines:
  assumes "case base of None \<Rightarrow> True | Some b \<Rightarrow> b < length h"
  shows "update_base (map_option (\<lambda>b. h ! b) base) record vs =
     bindE (h_update_base h base record vs) (\<lambda>(b, h', vs'). Inr (h' ! b, vs'))"
proof (cases "base_from_json record vs")
  case (Inl e)
  then show ?thesis
    by (simp add: update_base_def h_update_base_def h_base_from_json_def)
next
  case (Inr x)
  obtain attrs vs' where x: "x = (attrs, vs')" by (cases x)
  show ?thesis
  proof (cases base)
    case None
    with Inr x show ?thesis
      by (simp add: update_base_def h_update_base_def h_base_from_json_def new_object_def)
  next
    case (Some b)
    with assms have b: "b < length h" by simp
    then have "b < length (h @ [attrs])" "length h \<noteq> b" by simp_all
    from assign_base_fields_base [OF this] b Inr x Some show ?thesis
      by (simp add: update_base_def h_update_base_def h_base_from_json_def new_object_def nth_append)
  qed
qed

lemma state_of_sel [simp]:
  "st_base (state_of st) = map_option (\<lambda>b. hp st ! b) (h_base st)"
  "st_measurements (state_of st) = map (\<lambda>a. hp st ! a) (h_measurements st)"
  "st_version_set (state_of st) = h_version_set st"
  "st_ticks (state_of st) = h_ticks st"
  by (simp_all add: state_of_def)

lemma h_parse_records_refines:
  "h_wf st \<Longrightarrow>
     parse_records rp clk rs (state_of st) =
       bindE (h_parse_records rp clk rs st) (\<lambda>st'. Inr (state_of st'))"
proof (induction rs arbitrary: st)
  case Nil
  then show ?case by simp
next
  case (Cons r rs)
  have bl: "case h_base st of None \<Rightarrow> True | Some b \<Rightarrow> b < length (hp st)"
    using Cons.prems by (auto simp: h_wf_def split: option.splits)
  have pu: "update_base (st_base (state_of st)) r (st_version_set (state_of st)) =
     bindE (h_update_base (hp st) (h_base st) r (h_version_set st)) (\<lambda>(b, h', vs'). Inr (h' ! b, vs'))"
    using h_update_base_refines [OF bl, of r "h_version_set st"] by simp
  show ?case
  proof (cases "h_update_base (hp st) (h_base st) r (h_version_set st)")
    case (Inl e)
    with pu show ?thesis by simp
  next
    case ub: (Inr x)
    obtain b h1 vs where x: "x = (b, h1, vs)" by (cases x)
    note ub = ub [unfolded x]
    from pu ub have pu': "update_base (st_base (state_of st)) r (st_version_set (state_of st)) = Inr (h1 ! b, vs)"
      by simp
    show ?thesis
    proof (cases "from_json rp r")
      case (Inl e)
      with pu' ub show ?thesis by (simp add: h_from_json_def)
    next
      case fj: (Inr mo)
      show ?thesis
      proof (cases mo)
        case None
        with fj have hf: "h_from_json rp h1 r = Inr (None, h1)" by (simp add: h_from_json_def)
        note s = h_step_frame [OF ub hf Cons.prems]
        let ?n = "st\<lparr> hp := h1, h_base := Some b, h_version_set := vs \<rparr>"
        have wf: "h_wf ?n" using s by (auto simp: h_wf_def list_all_iff)
        have so: "(state_of st)\<lparr> st_base := Some (h1 ! b), st_version_set := vs \<rparr> = state_of ?n"
          using s(2) by (simp add: state_of_def)
        have pstep: "parse_records rp clk (r # rs) (state_of st) = parse_records rp clk rs (state_of ?n)"
          using pu' fj None by (simp add: so)
        have hstep: "h_parse_records rp clk (r # rs) st = h_parse_records rp clk rs ?n"
          using ub hf by simp
        from Cons.IH [OF wf] show ?thesis by (simp only: pstep hstep)
      next
        case (Some m)
        with fj have hf: "h_from_json rp h1 r = Inr (Some (length h1), h1 @ [m])"
          by (simp add: h_from_json_def new_object_def)
        note s = h_step_frame [OF ub hf Cons.prems]
        from h_update_base_frame [OF ub] Cons.prems have b1: "b < length h1"
          by (cases "h_base st") (auto simp: h_wf_def)
        have ha: "h_to_absolute clk (h1 @ [m]) (length h1) b (h_ticks st) =
            bindE (to_absolute clk m (h1 ! b) (h_ticks st)) (\<lambda>(ret, k').
              Inr (Suc (length h1), h1 @ [m, ret], k'))"
          using b1 by (simp add: h_to_absolute_def new_object_def nth_append)
        show ?thesis
        proof (cases "to_absolute clk m (h1 ! b) (h_ticks st)")
          case (Inl e)
          with pu' ub fj Some hf ha show ?thesis by simp
        next
          case (Inr y)
          obtain ret k where y: "y = (ret, k)" by (cases y)
          let ?n = "st\<lparr> hp := h1 @ [m, ret], h_base := Some b,
                h_measurements := h_measurements st @ [Suc (length h1)],
                h_version_set := vs, h_ticks := k \<rparr>"
          have keep: "\<forall>a\<in>set (h_measurements st). a < length h1 \<and> a \<noteq> b \<and> h1 ! a = hp st ! a"
          proof
            fix a assume "a \<in> set (h_measurements st)"
            with s(2) have a: "a < length (h1 @ [m])" "a \<noteq> b" "(h1 @ [m]) ! a = hp st ! a" by auto
            from Cons.prems \<open>a \<in> set (h_measurements st)\<close> have "a < length (hp st)"
              by (auto simp: h_wf_def list_all_iff)
            with h_update_base_frame(1) [OF ub] have "a < length h1" by simp
            with a show "a < length h1 \<and> a \<noteq> b \<and> h1 ! a = hp st ! a" by (simp add: nth_append)
          qed
          have wf: "h_wf ?n"
            using keep b1 by (auto simp: h_wf_def list_all_iff)
          have so: "(state_of st)\<lparr> st_base := Some (h1 ! b),
               st_measurements := st_measurements (state_of st) @ [ret],
               st_version_set := vs, st_ticks := k \<rparr> = state_of ?n"
            using keep b1 by (simp add: state_of_def nth_append)
          have pstep: "parse_records rp clk (r # rs) (state_of st) = parse_records rp clk rs (state_of ?n)"
            using pu' fj Some Inr y by (simp add: so del: state_of_sel) (simp add: so [symmetric])
          have hstep: "h_parse_records rp clk (r # rs) st = h_parse_records rp clk rs ?n"
            using ub hf ha Inr y by simp
          from Cons.IH [OF wf] show ?thesis by (simp only: pstep hstep)
        qed
      qed
    qed
  qed
qed

lemma map_insort_key:
  "map f (insort_key (\<lambda>a. k (f a)) x xs) = insort_key k (f x) (map f xs)"
  by (induction xs) simp_all

lemma map_sort_key:
  "map f (sort_key (\<lambda>a. k (f a)) xs) = sort_key k (map f xs)"
  by (induction xs) (simp_all add: map_insort_key)

lemma set_versions_length [simp]: "length (set_versions v h ms) = length h"
  by (induction ms arbitrary: h) simp_all

lemma h_version_gate_refines:
  assumes "list_all (\<lambda>a. a < length h) ms"
  shows "version_gate vs (map (\<lambda>a. h ! a) ms) =
     bindE (h_version_gate vs h ms) (\<lambda>(h', ms'). Inr (map (\<lambda>a. h' ! a) ms'))"
    and "h_version_gate vs h ms = Inr (h', ms') \<Longrightarrow>
           length h' = length h \<and> list_all (\<lambda>a. a < length h) ms'"
proof -
  have m: "map (\<lambda>a. set_versions v h ms ! a) ms = map (\<lambda>m. m\<lparr> version := v \<rparr>) (map (\<lambda>a. h ! a) ms)" for v
    using assms by (auto simp: list_all_iff set_versions_nth)
  show "version_gate vs (map (\<lambda>a. h ! a) ms) =
     bindE (h_version_gate vs h ms) (\<lambda>(h', ms'). Inr (map (\<lambda>a. h' ! a) ms'))"
  proof (cases vs)
    case Nil
    then show ?thesis by (simp add: version_gate_def h_version_gate_def)
  next
    case (Cons v rest)
    then show ?thesis
      by (cases "py_lt_int v 10") (auto simp: version_gate_def h_version_gate_def m)
  qed
  show "h_version_gate vs h ms = Inr (h', ms') \<Longrightarrow>
           length h' = length h \<and> list_all (\<lambda>a. a < length h) ms'"
    using assms
    by (auto simp: h_version_gate_def bindE_eq_Inr split: if_splits list.splits)
qed

lemma h_sorted_by_time_refines:
  "sorted_by_time (map (\<lambda>a. h ! a) ms) =
     bindE (h_sorted_by_time h ms) (\<lambda>ordered. Inr (map (\<lambda>a. h ! a) ordered))"
  by (simp add: sorted_by_time_def h_sorted_by_time_def list_all_iff map_sort_key)

lemma h_document_refines:
  "document_from_json rp clk json_data =
     bindE (h_document_from_json rp clk json_data) (\<lambda>(h, ms). Inr (map (\<lambda>a. h ! a) ms))"
proof -
  have wf0: "h_wf h_init_state" by (simp add: h_wf_def h_init_state_def)
  have i: "state_of h_init_state = init_state"
    by (simp add: state_of_def h_init_state_def init_state_def)
  note p = h_parse_records_refines [OF wf0, of rp clk json_data, unfolded i]
  show ?thesis
  proof (cases "h_parse_records rp clk json_data h_init_state")
    case (Inl e)
    with p show ?thesis by (simp add: document_from_json_def h_document_from_json_def)
  next
    case (Inr st)
    from h_parse_records_frame [OF Inr wf0] have wf: "h_wf st" by simp
    then have lv: "list_all (\<lambda>a. a < length (hp st)) (h_measurements st)"
      by (simp add: h_wf_def)
    let ?vs = "case h_version_set st of Some vs \<Rightarrow> vs | None \<Rightarrow> []"
    note g = h_version_gate_refines [OF lv, of ?vs]
    show ?thesis
    proof (cases "h_version_gate ?vs (hp st) (h_measurements st)")
      case (Inl e)
      with g(1) p Inr show ?thesis
        by (simp add: document_from_json_def h_document_from_json_def)
    next
      case gr: (Inr x)
      obtain h' ms' where x: "x = (h', ms')" by (cases x)
      from g(1) gr x have "version_gate ?vs (map (\<lambda>a. hp st ! a) (h_measurements st)) =
          Inr (map (\<lambda>a. h' ! a) ms')" by simp
      with p Inr gr x h_sorted_by_time_refines [of h' ms'] show ?thesis
        by (cases "h_sorted_by_time h' ms'")
          (simp_all add: document_from_json_def h_document_from_json_def)
    qed
  qed
qed

subsection \<open>What happens to an absolutized measurement\<close>





end
